theory Spec2Isabelle
  imports Main "HOL-Library.Word" "HOL-Library.Multiset"
begin

section \<open>JavaScript strings and values\<close>

text \<open>
  A JavaScript string is a sequence of UTF-16 code units: \<open>length\<close> counts them and
  \<open>slice(0, n)\<close> keeps the first \<open>n\<close> of them. \<open>lit\<close> embeds an ASCII literal of the
  source.
\<close>

type_synonym jstring = "16 word list"

definition lit :: "string \<Rightarrow> jstring" where
  "lit s = map (\<lambda>c. of_nat (of_char c)) s"

text \<open>
  The values the handlers compute with: what \<open>JSON.parse\<close> returns, and \<open>undefined\<close>
  for a property that is not there. A number of the model is an integer (the ids of a
  rotation are integers): \<open>JNum n\<close> is the double whose value is the integer \<open>n\<close>;
  fractions and \<open>NaN\<close> are not values of \<open>JNum\<close>. An object is the list of its own
  properties, read with \<open>map_of\<close>.
\<close>

datatype jsval =
    JUndefined
  | JNull
  | JBool bool
  | JNum int
  | JStr jstring
  | JArr "jsval list"
  | JObj "(jstring \<times> jsval) list"

text \<open>
  The four rate-limit headers; \<open>headers.get\<close> gives \<open>null\<close> (here \<open>None\<close>) for a
  missing one. The field \<open>method_limit\<close> is the source's \<open>method\<close>.
\<close>

record rate_info =
  app :: "jstring option"
  appCount :: "jstring option"
  method_limit :: "jstring option"
  methodCount :: "jstring option"

text \<open>
  What can be thrown. \<open>UpstreamError\<close> is the \<open>Error("Upstream Riot API error")\<close> of
  \<open>fetchRiotRotation\<close> with its three added properties; only this one has a \<open>status\<close>.
\<close>

datatype error =
    TypeError
  | SyntaxError
  | FetchRejected
  | BodyReadFailed
  | UpstreamError int rate_info jsval
  | StoreReadFailed
  | StoreWriteFailed
  | SendFailed

fun truthy :: "jsval \<Rightarrow> bool" where
  "truthy JUndefined = False"
| "truthy JNull = False"
| "truthy (JBool b) = b"
| "truthy (JNum n) = (n \<noteq> 0)"
| "truthy (JStr s) = (s \<noteq> [])"
| "truthy (JArr xs) = True"
| "truthy (JObj fs) = True"

text \<open>
  Property read \<open>v.k\<close>, for the names the handlers read (\<open>status\<close>, \<open>message\<close>,
  \<open>freeChampionIds\<close>: none of them is a property of a built-in prototype): a
  \<open>TypeError\<close> on \<open>null\<close> and \<open>undefined\<close>, \<open>undefined\<close> on every other value that is
  not an object having the property.
\<close>

fun get_prop :: "jsval \<Rightarrow> jstring \<Rightarrow> error + jsval" where
  "get_prop JUndefined k = Inl TypeError"
| "get_prop JNull k = Inl TypeError"
| "get_prop (JObj fs) k = Inr (case map_of fs k of None \<Rightarrow> JUndefined | Some v \<Rightarrow> v)"
| "get_prop v k = Inr JUndefined"

text \<open>
  Built-ins that are parameters of the model: the number a string converts to
  (\<open>None\<close> is \<open>NaN\<close>), \<open>JSON.stringify\<close>, the string of a number outside the safe
  integers, and the order \<open>sort\<close> leaves when its comparator is not consistent
  (ECMAScript leaves that order to the implementation).
\<close>

record runtime =
  string_to_number :: "jstring \<Rightarrow> int option"
  json_stringify :: "jsval \<Rightarrow> jstring"
  large_number_to_string :: "int \<Rightarrow> jstring"
  inconsistent_sort :: "jsval list \<Rightarrow> jsval list"

fun digits :: "nat \<Rightarrow> jstring" where
  "digits n =
     (if n < 10 then [of_nat (48 + n)] else digits (n div 10) @ [of_nat (48 + n mod 10)])"

text \<open>
  \<open>Number::toString\<close> on an integer: the decimal digits when the integer is safe
  (below \<open>2^53\<close> in absolute value); beyond that JavaScript prints the shortest
  digits that read back as the same double, and an exponent from \<open>10^21\<close> on, which
  is the runtime's \<open>large_number_to_string\<close>.
\<close>

definition is_safe_integer :: "int \<Rightarrow> bool" where
  "is_safe_integer n = (- 9007199254740991 \<le> n \<and> n \<le> 9007199254740991)"

definition number_to_string :: "runtime \<Rightarrow> int \<Rightarrow> jstring" where
  "number_to_string rt n =
     (if is_safe_integer n
      then (if n < 0 then 45 # digits (nat (- n)) else digits (nat n))
      else large_number_to_string rt n)"

fun comma_join :: "jstring list \<Rightarrow> jstring" where
  "comma_join [] = []"
| "comma_join [s] = s"
| "comma_join (s # t # ss) = s @ 44 # comma_join (t # ss)"

text \<open>
  \<open>ToString\<close>; the string of an array is its \<open>join(",")\<close>, in which \<open>undefined\<close> and
  \<open>null\<close> elements are empty.
\<close>

fun to_string :: "runtime \<Rightarrow> jsval \<Rightarrow> jstring" where
  "to_string rt JUndefined = lit ''undefined''"
| "to_string rt JNull = lit ''null''"
| "to_string rt (JBool b) = (if b then lit ''true'' else lit ''false'')"
| "to_string rt (JNum n) = number_to_string rt n"
| "to_string rt (JStr s) = s"
| "to_string rt (JArr xs) =
     comma_join (map (\<lambda>x. if x = JUndefined \<or> x = JNull then [] else to_string rt x) xs)"
| "to_string rt (JObj fs) = lit ''[object Object]''"

definition array_join :: "runtime \<Rightarrow> jsval list \<Rightarrow> jstring" where
  "array_join rt xs = to_string rt (JArr xs)"

fun to_number :: "runtime \<Rightarrow> jsval \<Rightarrow> int option" where
  "to_number rt JUndefined = None"
| "to_number rt JNull = Some 0"
| "to_number rt (JBool b) = Some (if b then 1 else 0)"
| "to_number rt (JNum n) = Some n"
| "to_number rt (JStr s) = string_to_number rt s"
| "to_number rt v = string_to_number rt (to_string rt v)"

text \<open>The comparator \<open>(a, b) => a - b\<close>; \<open>None\<close> is \<open>NaN\<close>.\<close>

definition compareFn :: "runtime \<Rightarrow> jsval \<Rightarrow> jsval \<Rightarrow> int option" where
  "compareFn rt a b =
     (case (to_number rt a, to_number rt b) of
        (Some x, Some y) \<Rightarrow> Some (x - y)
      | _ \<Rightarrow> None)"

text \<open>
  \<open>ids.sort((a, b) => a - b)\<close>. \<open>undefined\<close> elements go last without being
  compared. When every difference of two of the other elements is a number the
  comparator is consistent, the sort is stable and its result is that of a stable
  insertion sort. When some difference is \<open>NaN\<close> the comparator is not consistent and
  the order is the runtime's \<open>inconsistent_sort\<close>.
\<close>

definition sort_order :: "int option \<Rightarrow> int" where
  "sort_order v = (case v of None \<Rightarrow> 0 | Some d \<Rightarrow> d)"

fun insert_sorted :: "('a \<Rightarrow> 'a \<Rightarrow> int option) \<Rightarrow> 'a \<Rightarrow> 'a list \<Rightarrow> 'a list" where
  "insert_sorted cmp x [] = [x]"
| "insert_sorted cmp x (y # ys) =
     (if sort_order (cmp x y) \<le> 0 then x # y # ys else y # insert_sorted cmp x ys)"

definition array_sort ::
  "runtime \<Rightarrow> (jsval \<Rightarrow> jsval \<Rightarrow> int option) \<Rightarrow> jsval list \<Rightarrow> jsval list" where
  "array_sort rt cmp xs =
     (let defined = filter (\<lambda>x. x \<noteq> JUndefined) xs in
      (if \<forall>a \<in> set defined. \<forall>b \<in> set defined. cmp a b \<noteq> None
       then foldr (insert_sorted cmp) defined []
       else inconsistent_sort rt defined)
        @ filter (\<lambda>x. x = JUndefined) xs)"

section \<open>The signature of a rotation\<close>

text \<open>
  Lines 177 to 182 of the scheduled handler: \<open>ids\<close> is a sorted copy of
  \<open>payload.freeChampionIds\<close> when that is an array and the empty array otherwise,
  \<open>signature\<close> is \<open>ids.join(",")\<close>. Reading the property of a \<open>null\<close> payload throws.
\<close>

fun is_array :: "jsval \<Rightarrow> bool" where
  "is_array (JArr xs) = True"
| "is_array v = False"

fun slice :: "jsval \<Rightarrow> jsval list" where
  "slice (JArr xs) = xs"
| "slice v = []"

definition rotation_ids :: "runtime \<Rightarrow> jsval \<Rightarrow> error + jsval list" where
  "rotation_ids rt payload =
     (case get_prop payload (lit ''freeChampionIds'') of
        Inl e \<Rightarrow> Inl e
      | Inr f \<Rightarrow> Inr (array_sort rt (compareFn rt) (if is_array f then slice f else [])))"

definition rotation_signature :: "runtime \<Rightarrow> jsval \<Rightarrow> error + jstring" where
  "rotation_signature rt payload =
     (case rotation_ids rt payload of Inl e \<Rightarrow> Inl e | Inr ids \<Rightarrow> Inr (array_join rt ids))"

section \<open>Logging\<close>

text \<open>
  A log entry is its level, its message and the error passed along, when there is
  one; the other structured context of an entry is left out. \<open>Console\<close> is
  \<open>console.log\<close>.
\<close>

datatype log_level = Info | Warn | Error | Console

datatype log_entry = Log log_level jstring "error option"

section \<open>The key resolver\<close>

text \<open>
  \<open>resolveRiotApiKey\<close> (lines 78 to 97). The secret's \<open>value()\<close> returns a string or
  throws; a variable of \<open>process.env\<close> is a string or \<open>undefined\<close> (\<open>None\<close>).
\<close>

datatype secret_outcome = SecretThrows | SecretValue jstring

record process_env =
  RIOT_KEY :: "jstring option"
  RIOT_API_KEY :: "jstring option"
  RIOT_TOKEN :: "jstring option"

definition truthy_str :: "jstring option \<Rightarrow> bool" where
  "truthy_str v = (case v of None \<Rightarrow> False | Some s \<Rightarrow> s \<noteq> [])"

definition js_or :: "jstring option \<Rightarrow> jstring option \<Rightarrow> jstring option" where
  "js_or a b = (if truthy_str a then a else b)"

definition resolveRiotApiKey ::
  "secret_outcome \<Rightarrow> process_env \<Rightarrow> log_entry list \<times> jstring option" where
  "resolveRiotApiKey sec env =
     (let (warned, riotApiKey) =
        (case sec of
           SecretValue s \<Rightarrow> ([], Some s)
         | SecretThrows \<Rightarrow>
             ([Log Warn (lit ''Unable to read RIOT_KEY secret, falling back to env/config'')
                 None], None))
      in (warned,
          js_or (js_or (js_or riotApiKey (RIOT_KEY env)) (RIOT_API_KEY env)) (RIOT_TOKEN env)))"

section \<open>The upstream fetcher\<close>

text \<open>
  What the one \<open>fetch\<close> of an invocation gives: it rejects, or it resolves to a
  response. \<open>body\<close> is the text of the response (\<open>None\<close> when reading it fails) and
  \<open>parsed\<close> is what \<open>JSON.parse\<close> makes of that text (\<open>None\<close> when it throws a
  \<open>SyntaxError\<close>); \<open>response.json()\<close> is the two together.
\<close>

record response =
  status :: int
  headers :: rate_info
  body :: "jstring option"
  parsed :: "jsval option"

datatype fetch_outcome = Rejected | Responded response

definition ok :: "response \<Rightarrow> bool" where
  "ok r = (200 \<le> status r \<and> status r \<le> 299)"

text \<open>
  Lines 45 to 54. \<open>message_fields\<close> is
  \<open>(parsed.status && parsed.status.message) || parsed.message\<close>; the whole
  \<open>try\<close> is \<open>upstream_message\<close>, whose \<open>catch\<close> takes the raw text for every error
  thrown inside, the \<open>TypeError\<close> of a \<open>null\<close> body included.
\<close>

definition message_fields :: "jsval \<Rightarrow> error + jsval" where
  "message_fields p =
     (case get_prop p (lit ''status'') of
        Inl e \<Rightarrow> Inl e
      | Inr st \<Rightarrow>
          (case (if truthy st then get_prop st (lit ''message'') else Inr st) of
             Inl e \<Rightarrow> Inl e
           | Inr a \<Rightarrow> if truthy a then Inr a else get_prop p (lit ''message'')))"

definition upstream_message :: "runtime \<Rightarrow> jstring \<Rightarrow> jsval option \<Rightarrow> jsval" where
  "upstream_message rt errorBody pj =
     (case pj of
        None \<Rightarrow> JStr (take 2000 errorBody)
      | Some p \<Rightarrow>
          (case message_fields p of
             Inl e \<Rightarrow> JStr (take 2000 errorBody)
           | Inr v \<Rightarrow> if truthy v then v else JStr (take 2000 (json_stringify rt p))))"



text \<open>
  \<open>fetchRiotRotation\<close> (lines 24 to 71): the entries it logs, and the error it throws
  or the payload with the rate info. A rejected \<open>fetch\<close> throws before the
  \<open>console.log\<close>.
\<close>

definition fetchRiotRotation ::
  "runtime \<Rightarrow> jstring \<Rightarrow> fetch_outcome \<Rightarrow> log_entry list \<times> (error + jsval \<times> rate_info)" where
  "fetchRiotRotation rt riotApiKey fo =
     (case fo of
        Rejected \<Rightarrow> ([], Inl FetchRejected)
      | Responded r \<Rightarrow>
          (let rateInfo = headers r; printed = [Log Console riotApiKey None] in
           if \<not> ok r then
             (case body r of
                None \<Rightarrow> (printed, Inl BodyReadFailed)
              | Some errorBody \<Rightarrow>
                  (printed @ [Log Error (lit ''Riot API error'') None],
                   Inl (UpstreamError (status r) rateInfo
                          (upstream_message rt errorBody (parsed r)))))
           else
             (case body r of
                None \<Rightarrow> (printed, Inl BodyReadFailed)
              | Some bodyText \<Rightarrow>
                  (case parsed r of
                     None \<Rightarrow> (printed, Inl SyntaxError)
                   | Some payload \<Rightarrow> (printed, Inr (payload, rateInfo))))))"

section \<open>The callable proxy\<close>









section \<open>The store and the messaging service\<close>

text \<open>
  The one document \<open>riot/rotation\<close> is the list of its fields, or absent. A field
  holds a plain value, the \<open>FieldValue.serverTimestamp()\<close> sentinel (in the data of a
  write only) or the timestamp the server put in its place.
\<close>

datatype field_value = Plain jsval | ServerTimestamp | Timestamp nat

type_synonym document = "(jstring \<times> field_value) list"

text \<open>
  \<open>docRef.set(data)\<close>, called without the merge option: the document becomes
  \<open>data\<close>, with the sentinel resolved to the server's time.
\<close>

definition store_set :: "nat \<Rightarrow> document \<Rightarrow> document" where
  "store_set now data =
     map (\<lambda>(k, v). (k, case v of ServerTimestamp \<Rightarrow> Timestamp now | _ \<Rightarrow> v)) data"

record fcm_message =
  notification_title :: jstring
  notification_body :: jstring
  topic :: jstring

datatype call = StoreSet document | MessagingSend fcm_message

section \<open>The scheduled handler\<close>

text \<open>
  What the outside world does in one invocation: the secret and the environment, the
  outcome of the fetch, whether the read, the write and the send throw, and the
  server's clock.
\<close>

record externals =
  secret :: secret_outcome
  env :: process_env
  fetched :: fetch_outcome
  read_fails :: bool
  write_fails :: bool
  send_fails :: bool
  server_time :: nat

text \<open>
  The state an invocation runs in: the stored document, the calls issued so far to
  \<open>docRef.set\<close> and \<open>messaging.send\<close> (in order, also those that throw), and the log.
\<close>

record run_state =
  stored :: "document option"
  calls :: "call list"
  logs :: "log_entry list"

definition say :: "log_entry list \<Rightarrow> run_state \<Rightarrow> run_state" where
  "say es s = s\<lparr>logs := logs s @ es\<rparr>"

text \<open>Line 187: \<open>snapshot.exists ? snapshot.data().signature : null\<close>.\<close>

definition prevSignature :: "document option \<Rightarrow> field_value" where
  "prevSignature snapshot =
     (case snapshot of
        None \<Rightarrow> Plain JNull
      | Some d \<Rightarrow>
          (case map_of d (lit ''signature'') of None \<Rightarrow> Plain JUndefined | Some v \<Rightarrow> v))"

text \<open>\<open>prevSignature === signature\<close>, where \<open>signature\<close> is a string.\<close>

definition strict_equals :: "field_value \<Rightarrow> jstring \<Rightarrow> bool" where
  "strict_equals v signature =
     (case v of Plain (JStr s) \<Rightarrow> s = signature | _ \<Rightarrow> False)"

text \<open>Lines 195 to 200, the data of the write; lines 208 to 215, the message.\<close>

definition rotation_record :: "jstring \<Rightarrow> jsval list \<Rightarrow> jsval \<Rightarrow> document" where
  "rotation_record signature ids payload =
     [(lit ''signature'', Plain (JStr signature)),
      (lit ''freeChampionIds'', Plain (JArr ids)),
      (lit ''rawResponse'', Plain payload),
      (lit ''updatedAt'', ServerTimestamp)]"

definition rotation_message :: fcm_message where
  "rotation_message =
     \<lparr>notification_title = lit ''New free champion rotation!'',
      notification_body =
        lit ''This week'' @ [0xE2, 0x20AC, 0x2122]
          @ lit ''s free champions are live. Open the app to check them out.'',
      topic = lit ''riot-rotation''\<rparr>"

text \<open>
  The \<open>try\<close> block (lines 174 to 218): the state it leaves, and the error it throws
  if it throws.
\<close>

definition rotation_check :: "runtime \<Rightarrow> externals \<Rightarrow> jstring \<Rightarrow> run_state
    \<Rightarrow> run_state \<times> error option" where
  "rotation_check rt ex riotApiKey s0 =
     (case fetchRiotRotation rt riotApiKey (fetched ex) of
        (l, Inl e) \<Rightarrow> (say l s0, Some e)
      | (l, Inr (payload, ri)) \<Rightarrow>
          (let s1 = say l s0 in
           case rotation_ids rt payload of
             Inl e \<Rightarrow> (s1, Some e)
           | Inr ids \<Rightarrow>
               (let signature = array_join rt ids in
                if read_fails ex then (s1, Some StoreReadFailed)
                else if strict_equals (prevSignature (stored s1)) signature then
                  (say [Log Info (lit ''Rotation unchanged, nothing to do.'') None] s1, None)
                else
                  (let data = rotation_record signature ids payload;
                       s2 = s1\<lparr>calls := calls s1 @ [StoreSet data]\<rparr>
                   in
                   if write_fails ex then (s2, Some StoreWriteFailed)
                   else
                     (let s3 = say [Log Info (lit ''New rotation detected and saved. Sending FCM notification to topic 'riot-rotation'...'') None]
                                 (s2\<lparr>stored := Some (store_set (server_time ex) data)\<rparr>);
                          s4 = s3\<lparr>calls := calls s3 @ [MessagingSend rotation_message]\<rparr>
                      in
                      if send_fails ex then (s4, Some SendFailed)
                      else (say [Log Info (lit ''FCM notification sent'') None] s4, None))))))"

text \<open>
  The handler of \<open>checkChampionRotation\<close> (lines 163 to 222), started on the stored
  document: the state it leaves, and the error that reaches its caller if one does.
\<close>

definition checkChampionRotation :: "runtime \<Rightarrow> externals \<Rightarrow> document option
    \<Rightarrow> run_state \<times> error option" where
  "checkChampionRotation rt ex doc =
     (let s0 = \<lparr>stored = doc, calls = [],
                logs = [Log Info (lit ''Running scheduled Riot rotation check...'') None]\<rparr>
      in
      case resolveRiotApiKey (secret ex) (env ex) of (l0, riotApiKey) \<Rightarrow>
        if \<not> truthy_str riotApiKey then
          (say (l0 @ [Log Error (lit ''Riot API key is not configured for scheduled function'')
                        None]) s0,
           None)
        else
          (case rotation_check rt ex (case riotApiKey of Some k \<Rightarrow> k | None \<Rightarrow> [])
                  (say l0 s0) of
             (s, None) \<Rightarrow> (s, None)
           | (s, Some error) \<Rightarrow>
               (say [Log Error (lit ''Error in scheduled rotation check'') (Some error)] s,
                None)))"

section \<open>The error table in the words of the specification\<close>



text \<open>The first non-empty value of a list of variables, in the list's order.\<close>

definition first_non_empty :: "jstring option list \<Rightarrow> jstring option" where
  "first_non_empty vs = (case filter truthy_str vs of [] \<Rightarrow> None | v # rest \<Rightarrow> v)"

section \<open>Sample inputs\<close>

text \<open>
  Concrete inputs for the examples below: a runtime whose \<open>JSON.stringify\<close> is right
  on the empty object (the examples use no other built-in of the runtime), a response
  without rate-limit headers, and an invocation in which the secret is set and every
  service answers.
\<close>

definition sample_runtime :: runtime where
  "sample_runtime =
     \<lparr>string_to_number = (\<lambda>s. None), json_stringify = (\<lambda>v. lit ''{}''),
      large_number_to_string = (\<lambda>n. []), inconsistent_sort = (\<lambda>xs. xs)\<rparr>"

definition no_rate_info :: rate_info where
  "no_rate_info = \<lparr>app = None, appCount = None, method_limit = None, methodCount = None\<rparr>"

definition no_env :: process_env where
  "no_env = \<lparr>RIOT_KEY = None, RIOT_API_KEY = None, RIOT_TOKEN = None\<rparr>"

definition sample_response :: "int \<Rightarrow> jstring \<Rightarrow> jsval \<Rightarrow> response" where
  "sample_response st bodyText p =
     \<lparr>status = st, headers = no_rate_info, body = Some bodyText, parsed = Some p\<rparr>"

definition ids_payload :: "int list \<Rightarrow> jsval" where
  "ids_payload xs = JObj [(lit ''freeChampionIds'', JArr (map JNum xs))]"

definition payload_312 :: response where
  "payload_312 = sample_response 200 (lit ''{\"freeChampionIds\":[3,1,2]}'') (ids_payload [3, 1, 2])"

definition payload_54 :: response where
  "payload_54 = sample_response 200 (lit ''{\"freeChampionIds\":[5,4]}'') (ids_payload [5, 4])"

definition healthy :: "fetch_outcome \<Rightarrow> externals" where
  "healthy fo =
     \<lparr>secret = SecretValue (lit ''RGAPI-key''), env = no_env, fetched = fo,
      read_fails = False, write_fails = False, send_fails = False, server_time = 7\<rparr>"

definition stored_123 :: document where
  "stored_123 = store_set 1 (rotation_record (lit ''1,2,3'') [JNum 1, JNum 2, JNum 3] (ids_payload [1, 2, 3]))"





definition null_payload_response :: response where
  "null_payload_response = sample_response 200 (lit ''null'') JNull"

section \<open>Sorting and joining integer ids\<close>

lemma compareFn_nums: "sort_order (compareFn rt (JNum x) (JNum y)) = x - y"
  by (simp add: compareFn_def sort_order_def)

lemma insert_sorted_nums:
  "insert_sorted (compareFn rt) (JNum x) (map JNum ys) = map JNum (insort x ys)"
  by (induction ys) (simp_all add: compareFn_nums)

lemma foldr_insert_sorted_nums:
  "foldr (insert_sorted (compareFn rt)) (map JNum xs) [] = map JNum (sort xs)"
  by (induction xs) (simp_all add: sort_key_def insert_sorted_nums)

lemma array_sort_nums: "array_sort rt (compareFn rt) (map JNum xs) = map JNum (sort xs)"
proof -
  have keep: "filter (\<lambda>x. x \<noteq> JUndefined) (map JNum xs) = map JNum xs"
    by (induction xs) simp_all
  have none: "filter (\<lambda>x. x = JUndefined) (map JNum xs) = []"
    by (induction xs) simp_all
  have nums: "\<forall>a \<in> set (map JNum xs). \<forall>b \<in> set (map JNum xs). compareFn rt a b \<noteq> None"
    by (auto simp: compareFn_def)
  show ?thesis
    using nums by (simp add: array_sort_def keep none foldr_insert_sorted_nums)
qed

lemma array_join_nums: "array_join rt (map JNum xs) = comma_join (map (number_to_string rt) xs)"
  by (simp add: array_join_def comp_def)

lemma rotation_ids_nums:
  assumes "get_prop p (lit ''freeChampionIds'') = Inr (JArr (map JNum xs))"
  shows "rotation_ids rt p = Inr (map JNum (sort xs))"
  using assms by (simp add: rotation_ids_def array_sort_nums)

lemma rotation_signature_nums:
  assumes "get_prop p (lit ''freeChampionIds'') = Inr (JArr (map JNum xs))"
  shows "rotation_signature rt p = Inr (comma_join (map (number_to_string rt) (sort xs)))"
  using assms by (simp add: rotation_signature_def rotation_ids_nums array_join_nums)

lemma get_prop_ids_payload:
  "get_prop (ids_payload xs) (lit ''freeChampionIds'') = Inr (JArr (map JNum xs))"
  by (simp add: ids_payload_def)

section \<open>The signature\<close>

text \<open>
  C3. For two lists of integers that are permutations of each other, the signatures
  of two payloads whose \<open>freeChampionIds\<close> are these lists are the same string: the
  strings of the ids in ascending order, joined with commas.
\<close>

theorem signature_order_invariant:
  assumes "mset xs = mset ys"
    and "get_prop p (lit ''freeChampionIds'') = Inr (JArr (map JNum xs))"
    and "get_prop q (lit ''freeChampionIds'') = Inr (JArr (map JNum ys))"
  shows "rotation_signature rt p = rotation_signature rt q
       \<and> rotation_signature rt p = Inr (comma_join (map (number_to_string rt) (sort xs)))"
proof -
  have "sort xs = sort ys"
    using assms(1) by (metis sorted_list_of_multiset_mset)
  then show ?thesis
    using assms(2,3) by (simp add: rotation_signature_nums)
qed

theorem signature_order_invariant_witness:
  "mset [3, 1, 2] = mset [2, 3, 1 :: int]
   \<and> rotation_signature sample_runtime (ids_payload [3, 1, 2])
       = rotation_signature sample_runtime (ids_payload [2, 3, 1])
   \<and> rotation_signature sample_runtime (ids_payload [3, 1, 2]) = Inr (lit ''1,2,3'')"
proof -
  have m: "mset [3, 1, 2] = mset [2, 3, 1 :: int]" by simp
  have s: "comma_join (map (number_to_string sample_runtime) (sort [3, 1, 2 :: int]))
             = lit ''1,2,3''"
    by (simp add: number_to_string_def is_safe_integer_def lit_def)
  note t = signature_order_invariant
    [OF m get_prop_ids_payload get_prop_ids_payload, of sample_runtime]
  from t have a: "rotation_signature sample_runtime (ids_payload [3, 1, 2])
       = rotation_signature sample_runtime (ids_payload [2, 3, 1])"
    by (rule conjunct1)
  from t have "rotation_signature sample_runtime (ids_payload [3, 1, 2])
       = Inr (comma_join (map (number_to_string sample_runtime) (sort [3, 1, 2])))"
    by (rule conjunct2)
  then have b: "rotation_signature sample_runtime (ids_payload [3, 1, 2]) = Inr (lit ''1,2,3'')"
    by (simp only: s)
  from m a b show ?thesis by blast
qed

text \<open>
  C4, as stated, fails: a response whose body is \<open>null\<close> is fetched as the payload
  \<open>null\<close>, which has no \<open>freeChampionIds\<close>; reading the property throws a
  \<open>TypeError\<close> and no signature is computed.
\<close>

theorem signature_of_null_payload_counterexample:
  "snd (fetchRiotRotation sample_runtime (lit ''RGAPI-key'') (Responded null_payload_response))
     = Inr (JNull, no_rate_info)
   \<and> get_prop JNull (lit ''freeChampionIds'') = Inl TypeError
   \<and> rotation_signature sample_runtime JNull = Inl TypeError"
  by (simp add: fetchRiotRotation_def null_payload_response_def sample_response_def ok_def
      rotation_signature_def rotation_ids_def)

text \<open>
  C4, amended. For every payload other than \<open>null\<close> (and \<open>undefined\<close>, which no body
  parses to) in which \<open>freeChampionIds\<close> is absent, \<open>null\<close> or anything else that is
  not an array, the signature is computed without an error and is the empty string.
\<close>

theorem signature_of_missing_ids:
  assumes "p \<noteq> JNull" and "p \<noteq> JUndefined"
    and "\<forall>f. get_prop p (lit ''freeChampionIds'') = Inr f \<longrightarrow> \<not> is_array f"
  shows "rotation_signature rt p = Inr []"
proof -
  obtain f where f: "get_prop p (lit ''freeChampionIds'') = Inr f"
    using assms(1,2) by (cases p) simp_all
  with assms(3) have "\<not> is_array f" by simp
  with f show ?thesis
    by (simp add: rotation_signature_def rotation_ids_def array_sort_def array_join_def)
qed

theorem signature_of_missing_ids_witness:
  "rotation_signature sample_runtime (JObj []) = Inr []
   \<and> rotation_signature sample_runtime (JObj [(lit ''freeChampionIds'', JNull)]) = Inr []
   \<and> rotation_signature sample_runtime
        (JObj [(lit ''freeChampionIds'', JStr (lit ''3,1,2''))]) = Inr []"
proof -
  have a: "rotation_signature sample_runtime (JObj []) = Inr []"
    by (rule signature_of_missing_ids) simp_all
  have b: "rotation_signature sample_runtime (JObj [(lit ''freeChampionIds'', JNull)]) = Inr []"
    by (rule signature_of_missing_ids) simp_all
  have c: "rotation_signature sample_runtime
        (JObj [(lit ''freeChampionIds'', JStr (lit ''3,1,2''))]) = Inr []"
    by (rule signature_of_missing_ids) simp_all
  from a b c show ?thesis by blast
qed

section \<open>The key resolver, the proxy and the upstream message\<close>

lemma js_or_simps:
  "js_or None b = b" "js_or (Some []) b = b" "s \<noteq> [] \<Longrightarrow> js_or (Some s) b = Some s"
  by (simp_all add: js_or_def truthy_str_def)

text \<open>
  C9. The key resolver returns the secret's value when reading it gives a non-empty
  string, and logs nothing then; when reading the secret throws it logs one warning
  and goes on; when the secret is unusable it returns the first non-empty value of
  \<open>RIOT_KEY\<close>, \<open>RIOT_API_KEY\<close>, \<open>RIOT_TOKEN\<close>, in that order, and \<open>undefined\<close> or
  the empty string when none of them is set.
\<close>

theorem key_resolution:
  "(sec = SecretValue s \<and> s \<noteq> [] \<longrightarrow> resolveRiotApiKey sec penv = ([], Some s))
   \<and> (sec = SecretThrows \<longrightarrow>
        fst (resolveRiotApiKey sec penv)
          = [Log Warn (lit ''Unable to read RIOT_KEY secret, falling back to env/config'') None])
   \<and> (sec = SecretThrows \<or> sec = SecretValue [] \<longrightarrow>
        (if truthy_str (RIOT_KEY penv) \<or> truthy_str (RIOT_API_KEY penv) \<or> truthy_str (RIOT_TOKEN penv)
         then snd (resolveRiotApiKey sec penv)
                = first_non_empty [RIOT_KEY penv, RIOT_API_KEY penv, RIOT_TOKEN penv]
              \<and> truthy_str (snd (resolveRiotApiKey sec penv))
         else snd (resolveRiotApiKey sec penv) = None
              \<or> snd (resolveRiotApiKey sec penv) = Some []))"
proof (intro conjI impI)
  assume "sec = SecretValue s \<and> s \<noteq> []"
  then show "resolveRiotApiKey sec penv = ([], Some s)"
    by (simp add: resolveRiotApiKey_def js_or_simps)
next
  assume "sec = SecretThrows"
  then show "fst (resolveRiotApiKey sec penv)
          = [Log Warn (lit ''Unable to read RIOT_KEY secret, falling back to env/config'') None]"
    by (simp add: resolveRiotApiKey_def)
next
  assume "sec = SecretThrows \<or> sec = SecretValue []"
  then have r: "snd (resolveRiotApiKey sec penv)
      = js_or (js_or (RIOT_KEY penv) (RIOT_API_KEY penv)) (RIOT_TOKEN penv)"
    by (auto simp: resolveRiotApiKey_def js_or_simps)
  show "if truthy_str (RIOT_KEY penv) \<or> truthy_str (RIOT_API_KEY penv) \<or> truthy_str (RIOT_TOKEN penv)
         then snd (resolveRiotApiKey sec penv)
                = first_non_empty [RIOT_KEY penv, RIOT_API_KEY penv, RIOT_TOKEN penv]
              \<and> truthy_str (snd (resolveRiotApiKey sec penv))
         else snd (resolveRiotApiKey sec penv) = None
              \<or> snd (resolveRiotApiKey sec penv) = Some []"
    unfolding r
    by (cases "RIOT_KEY penv"; cases "RIOT_API_KEY penv"; cases "RIOT_TOKEN penv")
       (auto simp: js_or_def truthy_str_def first_non_empty_def)
qed

theorem key_resolution_witness:
  "resolveRiotApiKey (SecretValue (lit ''RGAPI-key'')) no_env = ([], Some (lit ''RGAPI-key''))
   \<and> fst (resolveRiotApiKey SecretThrows no_env)
       = [Log Warn (lit ''Unable to read RIOT_KEY secret, falling back to env/config'') None]
   \<and> snd (resolveRiotApiKey SecretThrows
             \<lparr>RIOT_KEY = Some [], RIOT_API_KEY = Some (lit ''second''),
              RIOT_TOKEN = Some (lit ''third'')\<rparr>) = Some (lit ''second'')
   \<and> (snd (resolveRiotApiKey (SecretValue []) no_env) = None
        \<or> snd (resolveRiotApiKey (SecretValue []) no_env) = Some [])"
proof -
  have a: "resolveRiotApiKey (SecretValue (lit ''RGAPI-key'')) no_env
             = ([], Some (lit ''RGAPI-key''))"
    using key_resolution [of "SecretValue (lit ''RGAPI-key'')" "lit ''RGAPI-key''" no_env]
    by (simp add: lit_def)
  have b: "fst (resolveRiotApiKey SecretThrows no_env)
       = [Log Warn (lit ''Unable to read RIOT_KEY secret, falling back to env/config'') None]"
    using key_resolution [of SecretThrows "[]" no_env] by simp
  have c: "snd (resolveRiotApiKey SecretThrows
             \<lparr>RIOT_KEY = Some [], RIOT_API_KEY = Some (lit ''second''),
              RIOT_TOKEN = Some (lit ''third'')\<rparr>) = Some (lit ''second'')"
    using key_resolution [of SecretThrows "[]"
             "\<lparr>RIOT_KEY = Some [], RIOT_API_KEY = Some (lit ''second''),
              RIOT_TOKEN = Some (lit ''third'')\<rparr>"]
    by (simp add: truthy_str_def first_non_empty_def lit_def)
  have d: "snd (resolveRiotApiKey (SecretValue []) no_env) = None
        \<or> snd (resolveRiotApiKey (SecretValue []) no_env) = Some []"
    using key_resolution [of "SecretValue []" "[]" no_env]
    by (simp add: truthy_str_def no_env_def)
  from a b c d show ?thesis by blast
qed






















section \<open>The scheduled handler: change detection\<close>

lemma say_simps:
  "calls (say l s) = calls s" "stored (say l s) = stored s" "logs (say l s) = logs s @ l"
  by (simp_all add: say_def)

lemma strict_equals_iff: "strict_equals v s \<longleftrightarrow> v = Plain (JStr s)"
  by (auto simp: strict_equals_def split: field_value.splits jsval.splits)

lemma prevSignature_written:
  "prevSignature (Some (store_set now (rotation_record sig ids payload))) = Plain (JStr sig)"
  by (simp add: prevSignature_def store_set_def rotation_record_def)

lemma prevSignature_absent: "prevSignature None \<noteq> Plain (JStr sig)"
  by (simp add: prevSignature_def)

text \<open>The calls and the document an invocation leaves, on each of its paths.\<close>

lemma check_effects:
  "(calls (fst (checkChampionRotation rt ex doc)) = []
      \<and> stored (fst (checkChampionRotation rt ex doc)) = doc)
   \<or> (\<exists>k l payload ri ids.
         fetchRiotRotation rt k (fetched ex) = (l, Inr (payload, ri))
       \<and> rotation_ids rt payload = Inr ids
       \<and> \<not> read_fails ex
       \<and> prevSignature doc \<noteq> Plain (JStr (array_join rt ids))
       \<and> (if write_fails ex
           then calls (fst (checkChampionRotation rt ex doc))
                  = [StoreSet (rotation_record (array_join rt ids) ids payload)]
              \<and> stored (fst (checkChampionRotation rt ex doc)) = doc
           else calls (fst (checkChampionRotation rt ex doc))
                  = [StoreSet (rotation_record (array_join rt ids) ids payload),
                     MessagingSend rotation_message]
              \<and> stored (fst (checkChampionRotation rt ex doc))
                  = Some (store_set (server_time ex)
                       (rotation_record (array_join rt ids) ids payload))))"
  by (auto simp: checkChampionRotation_def rotation_check_def say_simps strict_equals_iff Let_def
      split: prod.splits sum.splits option.splits)

lemma check_returns: "snd (checkChampionRotation rt ex doc) = None"
  by (auto simp: checkChampionRotation_def Let_def split: prod.splits option.splits)


lemma rotation_signature_ids:
  "rotation_signature rt payload = Inr signature
     \<longleftrightarrow> (\<exists>ids. rotation_ids rt payload = Inr ids \<and> signature = array_join rt ids)"
  by (auto simp: rotation_signature_def split: sum.splits)

lemma check_fetched:
  assumes "snd (resolveRiotApiKey (secret ex) (env ex)) = Some k" and "k \<noteq> []"
    and "snd (fetchRiotRotation rt k (fetched ex)) = Inr (payload, ri)"
    and "rotation_ids rt payload = Inr ids"
    and "\<not> read_fails ex"
  shows "calls (fst (checkChampionRotation rt ex doc))
           = (if prevSignature doc = Plain (JStr (array_join rt ids)) then []
              else if write_fails ex
                then [StoreSet (rotation_record (array_join rt ids) ids payload)]
              else [StoreSet (rotation_record (array_join rt ids) ids payload),
                    MessagingSend rotation_message])
       \<and> stored (fst (checkChampionRotation rt ex doc))
           = (if prevSignature doc = Plain (JStr (array_join rt ids)) \<or> write_fails ex then doc
              else Some (store_set (server_time ex)
                     (rotation_record (array_join rt ids) ids payload)))"
  using assms
  by (cases "resolveRiotApiKey (secret ex) (env ex)"; cases "fetchRiotRotation rt k (fetched ex)")
     (simp add: checkChampionRotation_def rotation_check_def say_simps strict_equals_iff
        Let_def truthy_str_def)

subsection \<open>Facts about the sample inputs\<close>

lemma healthy_key:
  "snd (resolveRiotApiKey (secret (healthy fo)) (env (healthy fo))) = Some (lit ''RGAPI-key'')"
  by (simp add: healthy_def resolveRiotApiKey_def js_or_def truthy_str_def lit_def)

lemma sample_key_not_empty: "lit ''RGAPI-key'' \<noteq> []"
  by (simp add: lit_def)

lemma fetch_sample_200:
  "snd (fetchRiotRotation rt k (Responded (sample_response 200 bodyText p)))
     = Inr (p, no_rate_info)"
  by (simp add: fetchRiotRotation_def sample_response_def ok_def)

lemma signature_312: "rotation_signature rt (ids_payload [3, 1, 2]) = Inr (lit ''1,2,3'')"
  by (simp add: rotation_signature_nums [OF get_prop_ids_payload] number_to_string_def is_safe_integer_def lit_def)

lemma signature_54: "rotation_signature rt (ids_payload [5, 4]) = Inr (lit ''4,5'')"
  by (simp add: rotation_signature_nums [OF get_prop_ids_payload] number_to_string_def is_safe_integer_def lit_def)

lemma prevSignature_stored_123: "prevSignature (Some stored_123) = Plain (JStr (lit ''1,2,3''))"
  by (simp add: stored_123_def prevSignature_written)

lemma ids_54: "rotation_ids rt (ids_payload [5, 4]) = Inr [JNum 4, JNum 5]"
  by (simp add: rotation_ids_nums [OF get_prop_ids_payload])

lemma join_45: "array_join rt [JNum 4, JNum 5] = lit ''4,5''"
  by (simp add: array_join_def number_to_string_def is_safe_integer_def lit_def)

lemma differ_123_45: "prevSignature (Some stored_123) \<noteq> Plain (JStr (lit ''4,5''))"
  by (simp add: prevSignature_stored_123 lit_def)

lemma healthy_fetch_54:
  "snd (fetchRiotRotation rt k (Responded payload_54)) = Inr (ids_payload [5, 4], no_rate_info)"
  by (simp add: payload_54_def fetch_sample_200)

subsection \<open>Change detection\<close>

lemma rotation_signature_defined:
  "(\<exists>signature. rotation_signature rt payload = Inr signature)
     \<longleftrightarrow> payload \<noteq> JNull \<and> payload \<noteq> JUndefined"
  by (cases payload) (simp_all add: rotation_signature_def rotation_ids_def)

lemma check_unreadable:
  assumes "snd (resolveRiotApiKey (secret ex) (env ex)) = Some k" and "k \<noteq> []"
    and "snd (fetchRiotRotation rt k (fetched ex)) = Inr (payload, ri)"
    and "rotation_ids rt payload = Inl e"
  shows "calls (fst (checkChampionRotation rt ex doc)) = []
       \<and> stored (fst (checkChampionRotation rt ex doc)) = doc"
  using assms
  by (cases "resolveRiotApiKey (secret ex) (env ex)"; cases "fetchRiotRotation rt k (fetched ex)")
     (simp add: checkChampionRotation_def rotation_check_def say_simps Let_def truthy_str_def)

lemma check_read_failed:
  assumes "read_fails ex"
  shows "calls (fst (checkChampionRotation rt ex doc)) = []
       \<and> stored (fst (checkChampionRotation rt ex doc)) = doc"
  using assms check_effects [of rt ex doc] by auto

lemma rotation_ids_null: "rotation_ids rt JNull = Inl TypeError"
  by (simp add: rotation_ids_def)

lemma fetch_null_payload:
  "snd (fetchRiotRotation rt k (fetched (healthy (Responded null_payload_response))))
     = Inr (JNull, no_rate_info)"
  by (simp add: healthy_def null_payload_response_def fetch_sample_200)

text \<open>
  C1, as stated, fails. On a first run (no stored document): a fetched \<open>null\<close> payload
  throws before the store is touched, and a read that throws ends the run, so neither
  writes nor publishes; and with a write that throws the write is issued and no
  publish follows.
\<close>

theorem change_detection_counterexample:
  "calls (fst (checkChampionRotation sample_runtime
                 (healthy (Responded null_payload_response)) None)) = []
   \<and> calls (fst (checkChampionRotation sample_runtime
                 ((healthy (Responded payload_54))\<lparr>read_fails := True\<rparr>) None)) = []
   \<and> calls (fst (checkChampionRotation sample_runtime
                 ((healthy (Responded payload_54))\<lparr>write_fails := True\<rparr>) None))
       = [StoreSet (rotation_record (lit ''4,5'') [JNum 4, JNum 5] (ids_payload [5, 4]))]"
proof -
  let ?w = "(healthy (Responded payload_54))\<lparr>write_fails := True\<rparr>"
  have a: "calls (fst (checkChampionRotation sample_runtime
                 (healthy (Responded null_payload_response)) None)) = []"
    using check_unreadable [OF healthy_key sample_key_not_empty fetch_null_payload
        rotation_ids_null, of sample_runtime None]
    by simp
  have b: "calls (fst (checkChampionRotation sample_runtime
                 ((healthy (Responded payload_54))\<lparr>read_fails := True\<rparr>) None)) = []"
    using check_read_failed [of "(healthy (Responded payload_54))\<lparr>read_fails := True\<rparr>"
        sample_runtime None]
    by simp
  have key: "snd (resolveRiotApiKey (secret ?w) (env ?w)) = Some (lit ''RGAPI-key'')"
    using healthy_key [of "Responded payload_54"] by simp
  have fetch: "snd (fetchRiotRotation sample_runtime (lit ''RGAPI-key'') (fetched ?w))
                 = Inr (ids_payload [5, 4], no_rate_info)"
    by (simp add: healthy_def healthy_fetch_54)
  have flags: "\<not> read_fails ?w" "write_fails ?w"
    by (simp_all add: healthy_def)
  have c: "calls (fst (checkChampionRotation sample_runtime ?w None))
       = [StoreSet (rotation_record (lit ''4,5'') [JNum 4, JNum 5] (ids_payload [5, 4]))]"
    using check_fetched [OF key sample_key_not_empty fetch ids_54 flags(1), of None] flags(2)
    by (simp add: join_45 prevSignature_absent)
  from a b c show ?thesis by blast
qed

text \<open>
  C1, amended. In an invocation that has a key, fetches a payload other than \<open>null\<close>
  (so that its signature is computed), and in which reading the store and writing to
  it do not throw: the handler issues a store write followed by a publish when the
  stored signature (\<open>null\<close> for a missing document) differs from the new one, and
  issues nothing and leaves the document as it is when they are equal; with no stored
  document it always writes and publishes.
\<close>

theorem change_detection:
  assumes "snd (resolveRiotApiKey (secret ex) (env ex)) = Some k" and "k \<noteq> []"
    and "snd (fetchRiotRotation rt k (fetched ex)) = Inr (payload, ri)"
    and "rotation_signature rt payload = Inr signature"
    and "\<not> read_fails ex" and "\<not> write_fails ex"
  shows "(prevSignature doc \<noteq> Plain (JStr signature) \<longrightarrow>
            (\<exists>d. calls (fst (checkChampionRotation rt ex doc))
                    = [StoreSet d, MessagingSend rotation_message]))
       \<and> (prevSignature doc = Plain (JStr signature) \<longrightarrow>
            calls (fst (checkChampionRotation rt ex doc)) = []
          \<and> stored (fst (checkChampionRotation rt ex doc)) = doc)
       \<and> (doc = None \<longrightarrow>
            (\<exists>d. calls (fst (checkChampionRotation rt ex doc))
                    = [StoreSet d, MessagingSend rotation_message]))"
proof -
  from assms(4) obtain ids
    where ids: "rotation_ids rt payload = Inr ids" and sig: "signature = array_join rt ids"
    by (auto simp: rotation_signature_ids)
  note run = check_fetched [OF assms(1,2,3) ids assms(5), of doc]
  have absent: "doc = None \<Longrightarrow> prevSignature doc \<noteq> Plain (JStr signature)"
    by (simp add: prevSignature_absent)
  show ?thesis
    using run assms(6) absent by (auto simp: sig)
qed

theorem change_detection_witness:
  "calls (fst (checkChampionRotation sample_runtime (healthy (Responded payload_312))
                 (Some stored_123))) = []
   \<and> (\<exists>d. calls (fst (checkChampionRotation sample_runtime (healthy (Responded payload_54))
                 (Some stored_123))) = [StoreSet d, MessagingSend rotation_message])
   \<and> (\<exists>d. calls (fst (checkChampionRotation sample_runtime (healthy (Responded payload_312))
                 None)) = [StoreSet d, MessagingSend rotation_message])"
proof -
  have ok: "\<not> read_fails (healthy fo)" "\<not> write_fails (healthy fo)" for fo
    by (simp_all add: healthy_def)
  have f1: "snd (fetchRiotRotation sample_runtime (lit ''RGAPI-key'')
                   (fetched (healthy (Responded payload_312))))
              = Inr (ids_payload [3, 1, 2], no_rate_info)"
    by (simp add: healthy_def payload_312_def fetch_sample_200)
  have f2: "snd (fetchRiotRotation sample_runtime (lit ''RGAPI-key'')
                   (fetched (healthy (Responded payload_54))))
              = Inr (ids_payload [5, 4], no_rate_info)"
    by (simp add: healthy_def payload_54_def fetch_sample_200)
  have differ: "Plain (JStr (lit ''1,2,3'')) \<noteq> Plain (JStr (lit ''4,5''))"
    by (simp add: lit_def)
  have a: "calls (fst (checkChampionRotation sample_runtime (healthy (Responded payload_312))
                 (Some stored_123))) = []"
    using change_detection [OF healthy_key sample_key_not_empty f1 signature_312 ok,
        of "Some stored_123"]
    by (simp add: prevSignature_stored_123)
  have b: "\<exists>d. calls (fst (checkChampionRotation sample_runtime (healthy (Responded payload_54))
                 (Some stored_123))) = [StoreSet d, MessagingSend rotation_message]"
    using change_detection [OF healthy_key sample_key_not_empty f2 signature_54 ok,
        of "Some stored_123"] differ
    by (simp add: prevSignature_stored_123)
  have c: "\<exists>d. calls (fst (checkChampionRotation sample_runtime (healthy (Responded payload_312))
                 None)) = [StoreSet d, MessagingSend rotation_message]"
    using change_detection [OF healthy_key sample_key_not_empty f1 signature_312 ok, of None]
    by simp
  from a b c show ?thesis by blast
qed

section \<open>The scheduled handler: running it again\<close>

text \<open>
  C6, as stated, fails: when the stored signature already is the payload's (stored
  \<open>1,2,3\<close>, payload ids 3, 1, 2), two invocations in succession issue no write and no
  publish at all, not one of each.
\<close>

theorem idempotence_counterexample:
  "calls (fst (checkChampionRotation sample_runtime (healthy (Responded payload_312))
                 (Some stored_123))) = []
   \<and> calls (fst (checkChampionRotation sample_runtime (healthy (Responded payload_312))
        (stored (fst (checkChampionRotation sample_runtime (healthy (Responded payload_312))
                        (Some stored_123)))))) = []"
proof -
  have r: "\<not> read_fails (healthy (Responded payload_312))"
    by (simp add: healthy_def)
  have f: "snd (fetchRiotRotation sample_runtime (lit ''RGAPI-key'')
                   (fetched (healthy (Responded payload_312))))
              = Inr (ids_payload [3, 1, 2], no_rate_info)"
    by (simp add: healthy_def payload_312_def fetch_sample_200)
  obtain ids where ids: "rotation_ids sample_runtime (ids_payload [3, 1, 2]) = Inr ids"
    and sig: "lit ''1,2,3'' = array_join sample_runtime ids"
    using signature_312 [of sample_runtime] by (auto simp: rotation_signature_ids)
  note run = check_fetched [OF healthy_key sample_key_not_empty f ids r]
  have first: "calls (fst (checkChampionRotation sample_runtime (healthy (Responded payload_312))
                 (Some stored_123))) = []"
    "stored (fst (checkChampionRotation sample_runtime (healthy (Responded payload_312))
                 (Some stored_123))) = Some stored_123"
    using run [of "Some stored_123"] by (simp_all add: prevSignature_stored_123 sig)
  show ?thesis
    using first by simp
qed

text \<open>
  C6, amended. Two invocations in succession that fetch the same payload, with store
  reads that succeed and a first write that does not fail: the second invocation
  issues no call and leaves the document as it is; the first issues one write followed
  by one publish when the payload is not \<open>null\<close> and the stored signature differed from
  the payload's before it (as on a first run with such a payload), and nothing when
  the stored signature already was the payload's or the payload is \<open>null\<close>.
\<close>

theorem second_run_is_noop:
  assumes "snd (resolveRiotApiKey (secret ex1) (env ex1)) = Some k1" and "k1 \<noteq> []"
    and "snd (resolveRiotApiKey (secret ex2) (env ex2)) = Some k2" and "k2 \<noteq> []"
    and "snd (fetchRiotRotation rt k1 (fetched ex1)) = Inr (payload, ri1)"
    and "snd (fetchRiotRotation rt k2 (fetched ex2)) = Inr (payload, ri2)"
    and "\<not> read_fails ex1" and "\<not> read_fails ex2" and "\<not> write_fails ex1"
  shows "calls (fst (checkChampionRotation rt ex2
                       (stored (fst (checkChampionRotation rt ex1 doc))))) = []
       \<and> stored (fst (checkChampionRotation rt ex2
                         (stored (fst (checkChampionRotation rt ex1 doc)))))
           = stored (fst (checkChampionRotation rt ex1 doc))
       \<and> (\<forall>signature. rotation_signature rt payload = Inr signature
              \<and> prevSignature doc \<noteq> Plain (JStr signature) \<longrightarrow>
            (\<exists>d. calls (fst (checkChampionRotation rt ex1 doc))
                    = [StoreSet d, MessagingSend rotation_message]))
       \<and> (\<forall>signature. rotation_signature rt payload = Inr signature
              \<and> prevSignature doc = Plain (JStr signature) \<longrightarrow>
            calls (fst (checkChampionRotation rt ex1 doc)) = [])
       \<and> (payload = JNull \<longrightarrow> calls (fst (checkChampionRotation rt ex1 doc)) = [])"
proof (cases "rotation_ids rt payload")
  case (Inl e)
  note first = check_unreadable [OF assms(1,2,5) Inl, of doc]
  note second = check_unreadable [OF assms(3,4,6) Inl,
      of "stored (fst (checkChampionRotation rt ex1 doc))"]
  from Inl have "rotation_signature rt payload = Inl e"
    by (simp add: rotation_signature_def)
  with first second show ?thesis by simp
next
  case (Inr ids)
  then have sig: "rotation_signature rt payload = Inr (array_join rt ids)"
    by (simp add: rotation_signature_def)
  from Inr have not_null: "payload \<noteq> JNull"
    by (auto simp: rotation_ids_null)
  note first = check_fetched [OF assms(1,2,5) Inr assms(7), of doc]
  have after: "prevSignature (stored (fst (checkChampionRotation rt ex1 doc)))
                 = Plain (JStr (array_join rt ids))"
    using first assms(9) by (auto simp: prevSignature_written)
  note second = check_fetched [OF assms(3,4,6) Inr assms(8),
      of "stored (fst (checkChampionRotation rt ex1 doc))"]
  show ?thesis
    using first second after assms(9) not_null by (auto simp: sig)
qed

theorem second_run_is_noop_witness:
  "calls (fst (checkChampionRotation sample_runtime (healthy (Responded payload_54))
        (stored (fst (checkChampionRotation sample_runtime (healthy (Responded payload_54))
                        (Some stored_123)))))) = []
   \<and> (\<exists>d. calls (fst (checkChampionRotation sample_runtime (healthy (Responded payload_54))
                        (Some stored_123))) = [StoreSet d, MessagingSend rotation_message])
   \<and> calls (fst (checkChampionRotation sample_runtime (healthy (Responded payload_312))
                        (Some stored_123))) = []
   \<and> calls (fst (checkChampionRotation sample_runtime
                 (healthy (Responded null_payload_response)) None)) = []"
proof -
  have ok: "\<not> read_fails (healthy fo)" "\<not> write_fails (healthy fo)" for fo
    by (simp_all add: healthy_def)
  have f: "snd (fetchRiotRotation sample_runtime (lit ''RGAPI-key'')
                   (fetched (healthy (Responded payload_54))))
              = Inr (ids_payload [5, 4], no_rate_info)"
    by (simp add: healthy_def payload_54_def fetch_sample_200)
  have g: "snd (fetchRiotRotation sample_runtime (lit ''RGAPI-key'')
                   (fetched (healthy (Responded payload_312))))
              = Inr (ids_payload [3, 1, 2], no_rate_info)"
    by (simp add: healthy_def payload_312_def fetch_sample_200)
  have differ: "prevSignature (Some stored_123) \<noteq> Plain (JStr (lit ''4,5''))"
    by (simp add: prevSignature_stored_123 lit_def)
  note changed = second_run_is_noop [OF healthy_key sample_key_not_empty healthy_key
      sample_key_not_empty f f ok(1) ok(1) ok(2), of "Some stored_123"]
  note same = second_run_is_noop [OF healthy_key sample_key_not_empty healthy_key
      sample_key_not_empty g g ok(1) ok(1) ok(2), of "Some stored_123"]
  note null = second_run_is_noop [OF healthy_key sample_key_not_empty healthy_key
      sample_key_not_empty fetch_null_payload fetch_null_payload ok(1) ok(1) ok(2),
      where rt = sample_runtime and doc = None]
  have a: "calls (fst (checkChampionRotation sample_runtime (healthy (Responded payload_54))
        (stored (fst (checkChampionRotation sample_runtime (healthy (Responded payload_54))
                        (Some stored_123)))))) = []"
    using changed by blast
  have b: "\<exists>d. calls (fst (checkChampionRotation sample_runtime (healthy (Responded payload_54))
                        (Some stored_123))) = [StoreSet d, MessagingSend rotation_message]"
    using changed signature_54 [of sample_runtime] differ by blast
  have c: "calls (fst (checkChampionRotation sample_runtime (healthy (Responded payload_312))
                        (Some stored_123))) = []"
    using same signature_312 [of sample_runtime] prevSignature_stored_123 by blast
  have d: "calls (fst (checkChampionRotation sample_runtime
                 (healthy (Responded null_payload_response)) None)) = []"
    using null by blast
  from a b c d show ?thesis by blast
qed


section \<open>The scheduled handler: failures\<close>

lemma check_fetch_failed:
  assumes "snd (resolveRiotApiKey (secret ex) (env ex)) = Some k" and "k \<noteq> []"
    and "snd (fetchRiotRotation rt k (fetched ex)) = Inl e"
  shows "calls (fst (checkChampionRotation rt ex doc)) = []
       \<and> stored (fst (checkChampionRotation rt ex doc)) = doc
       \<and> Log Error (lit ''Error in scheduled rotation check'') (Some e)
            \<in> set (logs (fst (checkChampionRotation rt ex doc)))"
  using assms
  by (cases "resolveRiotApiKey (secret ex) (env ex)"; cases "fetchRiotRotation rt k (fetched ex)")
     (simp add: checkChampionRotation_def rotation_check_def say_simps Let_def truthy_str_def)

text \<open>
  C7. When the fetch throws, the handler issues no call and leaves the document as it
  is; when the write throws, no publish is issued and the document is as it was; when
  the publish throws after a write that succeeded, the document is the written one.
\<close>

theorem failure_containment:
  "(\<forall>k e. snd (resolveRiotApiKey (secret ex) (env ex)) = Some k \<and> k \<noteq> []
           \<and> snd (fetchRiotRotation rt k (fetched ex)) = Inl e \<longrightarrow>
           calls (fst (checkChampionRotation rt ex doc)) = []
         \<and> stored (fst (checkChampionRotation rt ex doc)) = doc)
   \<and> (write_fails ex \<longrightarrow>
         (\<forall>m. MessagingSend m \<notin> set (calls (fst (checkChampionRotation rt ex doc))))
       \<and> stored (fst (checkChampionRotation rt ex doc)) = doc)
   \<and> (send_fails ex \<and> \<not> write_fails ex \<longrightarrow>
         (\<forall>d. StoreSet d \<in> set (calls (fst (checkChampionRotation rt ex doc))) \<longrightarrow>
               stored (fst (checkChampionRotation rt ex doc))
                 = Some (store_set (server_time ex) d)))"
proof (intro conjI allI impI)
  fix k e
  assume "snd (resolveRiotApiKey (secret ex) (env ex)) = Some k \<and> k \<noteq> []
           \<and> snd (fetchRiotRotation rt k (fetched ex)) = Inl e"
  then have run: "calls (fst (checkChampionRotation rt ex doc)) = []
       \<and> stored (fst (checkChampionRotation rt ex doc)) = doc"
    using check_fetch_failed [of ex k rt e doc] by simp
  from run show "calls (fst (checkChampionRotation rt ex doc)) = []" by simp
  from run show "stored (fst (checkChampionRotation rt ex doc)) = doc" by simp
next
  fix m
  assume "write_fails ex"
  then show "MessagingSend m \<notin> set (calls (fst (checkChampionRotation rt ex doc)))"
    using check_effects [of rt ex doc] by auto
next
  assume "write_fails ex"
  then show "stored (fst (checkChampionRotation rt ex doc)) = doc"
    using check_effects [of rt ex doc] by auto
next
  fix d
  assume "send_fails ex \<and> \<not> write_fails ex"
    and "StoreSet d \<in> set (calls (fst (checkChampionRotation rt ex doc)))"
  then show "stored (fst (checkChampionRotation rt ex doc)) = Some (store_set (server_time ex) d)"
    using check_effects [of rt ex doc] by auto
qed


theorem failure_containment_witness:
  "calls (fst (checkChampionRotation sample_runtime (healthy Rejected) (Some stored_123))) = []
   \<and> stored (fst (checkChampionRotation sample_runtime (healthy Rejected) (Some stored_123)))
       = Some stored_123
   \<and> MessagingSend rotation_message
       \<notin> set (calls (fst (checkChampionRotation sample_runtime
               ((healthy (Responded payload_54))\<lparr>write_fails := True\<rparr>) (Some stored_123))))
   \<and> stored (fst (checkChampionRotation sample_runtime
               ((healthy (Responded payload_54))\<lparr>write_fails := True\<rparr>) (Some stored_123)))
       = Some stored_123
   \<and> StoreSet (rotation_record (lit ''4,5'') [JNum 4, JNum 5] (ids_payload [5, 4]))
       \<in> set (calls (fst (checkChampionRotation sample_runtime
               ((healthy (Responded payload_54))\<lparr>send_fails := True\<rparr>) (Some stored_123))))
   \<and> stored (fst (checkChampionRotation sample_runtime
               ((healthy (Responded payload_54))\<lparr>send_fails := True\<rparr>) (Some stored_123)))
       = Some (store_set 7 (rotation_record (lit ''4,5'') [JNum 4, JNum 5] (ids_payload [5, 4])))"
proof -
  let ?w = "(healthy (Responded payload_54))\<lparr>write_fails := True\<rparr>"
  let ?s = "(healthy (Responded payload_54))\<lparr>send_fails := True\<rparr>"
  let ?d = "rotation_record (lit ''4,5'') [JNum 4, JNum 5] (ids_payload [5, 4])"
  have rej: "snd (fetchRiotRotation sample_runtime (lit ''RGAPI-key'') (fetched (healthy Rejected)))
               = Inl FetchRejected"
    by (simp add: healthy_def fetchRiotRotation_def)
  have a: "calls (fst (checkChampionRotation sample_runtime (healthy Rejected)
                         (Some stored_123))) = []
         \<and> stored (fst (checkChampionRotation sample_runtime (healthy Rejected)
                         (Some stored_123))) = Some stored_123"
    using failure_containment [of "healthy Rejected" sample_runtime "Some stored_123"]
      healthy_key [of Rejected] sample_key_not_empty rej
    by blast
  have w: "write_fails ?w"
    by simp
  have b: "MessagingSend rotation_message
             \<notin> set (calls (fst (checkChampionRotation sample_runtime ?w (Some stored_123))))
         \<and> stored (fst (checkChampionRotation sample_runtime ?w (Some stored_123)))
             = Some stored_123"
    using failure_containment [of ?w sample_runtime "Some stored_123"] w
    by blast
  have key: "snd (resolveRiotApiKey (secret ?s) (env ?s)) = Some (lit ''RGAPI-key'')"
    using healthy_key [of "Responded payload_54"] by simp
  have fetch: "snd (fetchRiotRotation sample_runtime (lit ''RGAPI-key'') (fetched ?s))
                 = Inr (ids_payload [5, 4], no_rate_info)"
    by (simp add: healthy_def healthy_fetch_54)
  have flags: "\<not> read_fails ?s" "send_fails ?s \<and> \<not> write_fails ?s" "server_time ?s = 7"
    by (simp_all add: healthy_def)
  have issued: "StoreSet ?d \<in> set (calls (fst (checkChampionRotation sample_runtime ?s
                                                  (Some stored_123))))"
    using check_fetched [OF key sample_key_not_empty fetch ids_54 flags(1), of "Some stored_123"]
      flags(2) differ_123_45
    by (simp add: join_45)
  have c: "stored (fst (checkChampionRotation sample_runtime ?s (Some stored_123)))
             = Some (store_set 7 ?d)"
    using failure_containment [of ?s sample_runtime "Some stored_123"] flags(2,3) issued
    by metis
  from a b issued c show ?thesis by blast
qed


section \<open>The scheduled handler: the written record\<close>

lemma check_written:
  assumes "StoreSet d \<in> set (calls (fst (checkChampionRotation rt ex doc)))"
  shows "\<exists>payload ids.
           rotation_ids rt payload = Inr ids
         \<and> d = rotation_record (array_join rt ids) ids payload
         \<and> (\<not> write_fails ex \<longrightarrow>
              stored (fst (checkChampionRotation rt ex doc))
                = Some (store_set (server_time ex) d))"
proof -
  from check_effects [of rt ex doc] assms
  obtain payload ids where ids: "rotation_ids rt payload = Inr ids"
    and run: "if write_fails ex
           then calls (fst (checkChampionRotation rt ex doc))
                  = [StoreSet (rotation_record (array_join rt ids) ids payload)]
              \<and> stored (fst (checkChampionRotation rt ex doc)) = doc
           else calls (fst (checkChampionRotation rt ex doc))
                  = [StoreSet (rotation_record (array_join rt ids) ids payload),
                     MessagingSend rotation_message]
              \<and> stored (fst (checkChampionRotation rt ex doc))
                  = Some (store_set (server_time ex)
                       (rotation_record (array_join rt ids) ids payload))"
    by auto
  from run assms have d: "d = rotation_record (array_join rt ids) ids payload"
    by (auto split: if_splits)
  from run d have "\<not> write_fails ex \<longrightarrow>
              stored (fst (checkChampionRotation rt ex doc))
                = Some (store_set (server_time ex) d)"
    by (auto split: if_splits)
  with ids d show ?thesis by blast
qed

text \<open>
  C8. The data of every write the handler issues has exactly the four fields
  \<open>signature\<close>, \<open>freeChampionIds\<close>, \<open>rawResponse\<close>, \<open>updatedAt\<close>; its signature is the
  comma-join of its \<open>freeChampionIds\<close>, which for integer ids are the payload's ids in
  ascending order; and after a write that succeeds the stored document is this data
  alone (with the server's time), whatever the document held before.
\<close>

theorem written_record_invariant:
  "StoreSet d \<in> set (calls (fst (checkChampionRotation rt ex doc))) \<longrightarrow>
     (\<exists>ids payload.
         d = [(lit ''signature'', Plain (JStr (array_join rt ids))),
              (lit ''freeChampionIds'', Plain (JArr ids)),
              (lit ''rawResponse'', Plain payload),
              (lit ''updatedAt'', ServerTimestamp)]
       \<and> rotation_ids rt payload = Inr ids
       \<and> (\<forall>xs. get_prop payload (lit ''freeChampionIds'') = Inr (JArr (map JNum xs)) \<longrightarrow>
              ids = map JNum (sort xs)
            \<and> array_join rt ids = comma_join (map (number_to_string rt) (sort xs)))
       \<and> (\<not> write_fails ex \<longrightarrow>
             stored (fst (checkChampionRotation rt ex doc))
               = Some [(lit ''signature'', Plain (JStr (array_join rt ids))),
                       (lit ''freeChampionIds'', Plain (JArr ids)),
                       (lit ''rawResponse'', Plain payload),
                       (lit ''updatedAt'', Timestamp (server_time ex))]))"
proof
  assume "StoreSet d \<in> set (calls (fst (checkChampionRotation rt ex doc)))"
  then obtain payload ids
    where ids: "rotation_ids rt payload = Inr ids"
      and d: "d = rotation_record (array_join rt ids) ids payload"
      and st: "\<not> write_fails ex \<longrightarrow>
              stored (fst (checkChampionRotation rt ex doc))
                = Some (store_set (server_time ex) d)"
    using check_written by blast
  have sorted_ids: "ids = map JNum (sort xs)
            \<and> array_join rt ids = comma_join (map (number_to_string rt) (sort xs))"
    if "get_prop payload (lit ''freeChampionIds'') = Inr (JArr (map JNum xs))" for xs
    using rotation_ids_nums [OF that, of rt] ids by (simp add: array_join_nums)
  have resolved: "store_set (server_time ex) (rotation_record (array_join rt ids) ids payload)
      = [(lit ''signature'', Plain (JStr (array_join rt ids))),
         (lit ''freeChampionIds'', Plain (JArr ids)),
         (lit ''rawResponse'', Plain payload),
         (lit ''updatedAt'', Timestamp (server_time ex))]"
    by (simp add: store_set_def rotation_record_def)
  show "\<exists>ids payload.
         d = [(lit ''signature'', Plain (JStr (array_join rt ids))),
              (lit ''freeChampionIds'', Plain (JArr ids)),
              (lit ''rawResponse'', Plain payload),
              (lit ''updatedAt'', ServerTimestamp)]
       \<and> rotation_ids rt payload = Inr ids
       \<and> (\<forall>xs. get_prop payload (lit ''freeChampionIds'') = Inr (JArr (map JNum xs)) \<longrightarrow>
              ids = map JNum (sort xs)
            \<and> array_join rt ids = comma_join (map (number_to_string rt) (sort xs)))
       \<and> (\<not> write_fails ex \<longrightarrow>
             stored (fst (checkChampionRotation rt ex doc))
               = Some [(lit ''signature'', Plain (JStr (array_join rt ids))),
                       (lit ''freeChampionIds'', Plain (JArr ids)),
                       (lit ''rawResponse'', Plain payload),
                       (lit ''updatedAt'', Timestamp (server_time ex))])"
  proof (intro exI conjI allI impI)
    show "d = [(lit ''signature'', Plain (JStr (array_join rt ids))),
              (lit ''freeChampionIds'', Plain (JArr ids)),
              (lit ''rawResponse'', Plain payload),
              (lit ''updatedAt'', ServerTimestamp)]"
      using d by (simp add: rotation_record_def)
    show "rotation_ids rt payload = Inr ids"
      by (rule ids)
    show "ids = map JNum (sort xs)"
      if "get_prop payload (lit ''freeChampionIds'') = Inr (JArr (map JNum xs))" for xs
      using sorted_ids [OF that] by (rule conjunct1)
    show "array_join rt ids = comma_join (map (number_to_string rt) (sort xs))"
      if "get_prop payload (lit ''freeChampionIds'') = Inr (JArr (map JNum xs))" for xs
      using sorted_ids [OF that] by (rule conjunct2)
    show "stored (fst (checkChampionRotation rt ex doc))
               = Some [(lit ''signature'', Plain (JStr (array_join rt ids))),
                       (lit ''freeChampionIds'', Plain (JArr ids)),
                       (lit ''rawResponse'', Plain payload),
                       (lit ''updatedAt'', Timestamp (server_time ex))]"
      if "\<not> write_fails ex"
      using st that d resolved by simp
  qed
qed


theorem written_record_invariant_witness:
  "StoreSet (rotation_record (lit ''4,5'') [JNum 4, JNum 5] (ids_payload [5, 4]))
     \<in> set (calls (fst (checkChampionRotation sample_runtime (healthy (Responded payload_54))
                           (Some (stored_123 @ [(lit ''owner'', Plain (JStr (lit ''ops'')))])))))
   \<and> stored (fst (checkChampionRotation sample_runtime (healthy (Responded payload_54))
                           (Some (stored_123 @ [(lit ''owner'', Plain (JStr (lit ''ops'')))]))))
       = Some [(lit ''signature'', Plain (JStr (lit ''4,5''))),
               (lit ''freeChampionIds'', Plain (JArr [JNum 4, JNum 5])),
               (lit ''rawResponse'', Plain (ids_payload [5, 4])),
               (lit ''updatedAt'', Timestamp 7)]"
proof -
  let ?ex = "healthy (Responded payload_54)"
  let ?doc = "Some (stored_123 @ [(lit ''owner'', Plain (JStr (lit ''ops'')))])"
  let ?d = "rotation_record (lit ''4,5'') [JNum 4, JNum 5] (ids_payload [5, 4])"
  have prev: "prevSignature ?doc \<noteq> Plain (JStr (lit ''4,5''))"
    by (simp add: prevSignature_def stored_123_def store_set_def rotation_record_def lit_def)
  have fetch: "snd (fetchRiotRotation sample_runtime (lit ''RGAPI-key'') (fetched ?ex))
                 = Inr (ids_payload [5, 4], no_rate_info)"
    by (simp add: healthy_def healthy_fetch_54)
  have flags: "\<not> read_fails ?ex" "\<not> write_fails ?ex" "server_time ?ex = 7"
    by (simp_all add: healthy_def)
  have issued: "StoreSet ?d \<in> set (calls (fst (checkChampionRotation sample_runtime ?ex ?doc)))"
    using check_fetched [OF healthy_key sample_key_not_empty fetch ids_54 flags(1), of ?doc]
      flags(2) prev
    by (simp add: join_45)
  from written_record_invariant [of ?d sample_runtime ?ex ?doc] issued flags(2,3)
  have "stored (fst (checkChampionRotation sample_runtime ?ex ?doc))
       = Some [(lit ''signature'', Plain (JStr (lit ''4,5''))),
               (lit ''freeChampionIds'', Plain (JArr [JNum 4, JNum 5])),
               (lit ''rawResponse'', Plain (ids_payload [5, 4])),
               (lit ''updatedAt'', Timestamp 7)]"
    by (auto simp: rotation_record_def)
  with issued show ?thesis by blast
qed

section \<open>The scheduled handler: no error reaches the caller\<close>

lemma check_fetched_logs:
  assumes "snd (resolveRiotApiKey (secret ex) (env ex)) = Some k" and "k \<noteq> []"
    and "snd (fetchRiotRotation rt k (fetched ex)) = Inr (payload, ri)"
  shows "(\<forall>e. rotation_ids rt payload = Inl e \<longrightarrow>
            Log Error (lit ''Error in scheduled rotation check'') (Some e)
              \<in> set (logs (fst (checkChampionRotation rt ex doc))))
       \<and> (\<forall>ids. rotation_ids rt payload = Inr ids \<longrightarrow>
            (read_fails ex \<longrightarrow>
               Log Error (lit ''Error in scheduled rotation check'') (Some StoreReadFailed)
                 \<in> set (logs (fst (checkChampionRotation rt ex doc))))
          \<and> (\<not> read_fails ex \<and> prevSignature doc \<noteq> Plain (JStr (array_join rt ids))
               \<and> write_fails ex \<longrightarrow>
               Log Error (lit ''Error in scheduled rotation check'') (Some StoreWriteFailed)
                 \<in> set (logs (fst (checkChampionRotation rt ex doc))))
          \<and> (\<not> read_fails ex \<and> prevSignature doc \<noteq> Plain (JStr (array_join rt ids))
               \<and> \<not> write_fails ex \<and> send_fails ex \<longrightarrow>
               Log Error (lit ''Error in scheduled rotation check'') (Some SendFailed)
                 \<in> set (logs (fst (checkChampionRotation rt ex doc)))))"
  using assms
  by (cases "resolveRiotApiKey (secret ex) (env ex)"; cases "fetchRiotRotation rt k (fetched ex)")
     (simp add: checkChampionRotation_def rotation_check_def say_simps strict_equals_iff
        Let_def truthy_str_def)

text \<open>
  C10. The handler returns normally whatever the fetch, the read, the write and the
  publish do; an error thrown by any of them, or by reading the ids of a \<open>null\<close>
  payload, is logged with the message of the \<open>catch\<close>.
\<close>

theorem handler_never_throws:
  "snd (checkChampionRotation rt ex doc) = None
   \<and> (\<forall>k. snd (resolveRiotApiKey (secret ex) (env ex)) = Some k \<and> k \<noteq> [] \<longrightarrow>
        (\<forall>e. snd (fetchRiotRotation rt k (fetched ex)) = Inl e \<longrightarrow>
            Log Error (lit ''Error in scheduled rotation check'') (Some e)
              \<in> set (logs (fst (checkChampionRotation rt ex doc))))
      \<and> (\<forall>payload ri e. snd (fetchRiotRotation rt k (fetched ex)) = Inr (payload, ri)
              \<and> rotation_ids rt payload = Inl e \<longrightarrow>
            Log Error (lit ''Error in scheduled rotation check'') (Some e)
              \<in> set (logs (fst (checkChampionRotation rt ex doc))))
      \<and> (\<forall>payload ri ids. snd (fetchRiotRotation rt k (fetched ex)) = Inr (payload, ri)
              \<and> rotation_ids rt payload = Inr ids \<longrightarrow>
            (read_fails ex \<longrightarrow>
               Log Error (lit ''Error in scheduled rotation check'') (Some StoreReadFailed)
                 \<in> set (logs (fst (checkChampionRotation rt ex doc))))
          \<and> (\<not> read_fails ex \<and> prevSignature doc \<noteq> Plain (JStr (array_join rt ids))
               \<and> write_fails ex \<longrightarrow>
               Log Error (lit ''Error in scheduled rotation check'') (Some StoreWriteFailed)
                 \<in> set (logs (fst (checkChampionRotation rt ex doc))))
          \<and> (\<not> read_fails ex \<and> prevSignature doc \<noteq> Plain (JStr (array_join rt ids))
               \<and> \<not> write_fails ex \<and> send_fails ex \<longrightarrow>
               Log Error (lit ''Error in scheduled rotation check'') (Some SendFailed)
                 \<in> set (logs (fst (checkChampionRotation rt ex doc))))))"
proof (intro conjI allI impI)
  show "snd (checkChampionRotation rt ex doc) = None"
    by (rule check_returns)
next
  fix k e
  assume "snd (resolveRiotApiKey (secret ex) (env ex)) = Some k \<and> k \<noteq> []"
    and "snd (fetchRiotRotation rt k (fetched ex)) = Inl e"
  then show "Log Error (lit ''Error in scheduled rotation check'') (Some e)
              \<in> set (logs (fst (checkChampionRotation rt ex doc)))"
    using check_fetch_failed [of ex k rt e doc] by simp
next
  fix k payload ri e
  assume "snd (resolveRiotApiKey (secret ex) (env ex)) = Some k \<and> k \<noteq> []"
    and "snd (fetchRiotRotation rt k (fetched ex)) = Inr (payload, ri)
              \<and> rotation_ids rt payload = Inl e"
  then show "Log Error (lit ''Error in scheduled rotation check'') (Some e)
              \<in> set (logs (fst (checkChampionRotation rt ex doc)))"
    using check_fetched_logs [of ex k rt payload ri doc] by blast
next
  fix k payload ri ids
  assume key: "snd (resolveRiotApiKey (secret ex) (env ex)) = Some k \<and> k \<noteq> []"
    and got: "snd (fetchRiotRotation rt k (fetched ex)) = Inr (payload, ri)
              \<and> rotation_ids rt payload = Inr ids"
  note logs = check_fetched_logs [of ex k rt payload ri doc]
  {
    assume "read_fails ex"
    then show "Log Error (lit ''Error in scheduled rotation check'') (Some StoreReadFailed)
                 \<in> set (logs (fst (checkChampionRotation rt ex doc)))"
      using logs key got by blast
  }
  {
    assume "\<not> read_fails ex \<and> prevSignature doc \<noteq> Plain (JStr (array_join rt ids))
               \<and> write_fails ex"
    then show "Log Error (lit ''Error in scheduled rotation check'') (Some StoreWriteFailed)
                 \<in> set (logs (fst (checkChampionRotation rt ex doc)))"
      using logs key got by blast
  }
  {
    assume "\<not> read_fails ex \<and> prevSignature doc \<noteq> Plain (JStr (array_join rt ids))
               \<and> \<not> write_fails ex \<and> send_fails ex"
    then show "Log Error (lit ''Error in scheduled rotation check'') (Some SendFailed)
                 \<in> set (logs (fst (checkChampionRotation rt ex doc)))"
      using logs key got by blast
  }
qed


theorem handler_never_throws_witness:
  "snd (checkChampionRotation sample_runtime (healthy Rejected) None) = None
   \<and> Log Error (lit ''Error in scheduled rotation check'') (Some FetchRejected)
       \<in> set (logs (fst (checkChampionRotation sample_runtime (healthy Rejected) None)))
   \<and> Log Error (lit ''Error in scheduled rotation check'') (Some TypeError)
       \<in> set (logs (fst (checkChampionRotation sample_runtime
               (healthy (Responded null_payload_response)) None)))
   \<and> Log Error (lit ''Error in scheduled rotation check'') (Some StoreReadFailed)
       \<in> set (logs (fst (checkChampionRotation sample_runtime
               ((healthy (Responded payload_54))\<lparr>read_fails := True\<rparr>) None)))
   \<and> Log Error (lit ''Error in scheduled rotation check'') (Some StoreWriteFailed)
       \<in> set (logs (fst (checkChampionRotation sample_runtime
               ((healthy (Responded payload_54))\<lparr>write_fails := True\<rparr>) None)))
   \<and> Log Error (lit ''Error in scheduled rotation check'') (Some SendFailed)
       \<in> set (logs (fst (checkChampionRotation sample_runtime
               ((healthy (Responded payload_54))\<lparr>send_fails := True\<rparr>) None)))"
proof -
  let ?n = "healthy (Responded null_payload_response)"
  let ?r = "(healthy (Responded payload_54))\<lparr>read_fails := True\<rparr>"
  let ?w = "(healthy (Responded payload_54))\<lparr>write_fails := True\<rparr>"
  let ?s = "(healthy (Responded payload_54))\<lparr>send_fails := True\<rparr>"
  have key: "snd (resolveRiotApiKey (secret (healthy fo)) (env (healthy fo)))
               = Some (lit ''RGAPI-key'') \<and> lit ''RGAPI-key'' \<noteq> []" for fo
    using healthy_key sample_key_not_empty by simp
  have rej: "snd (fetchRiotRotation sample_runtime (lit ''RGAPI-key'') (fetched (healthy Rejected)))
               = Inl FetchRejected"
    by (simp add: healthy_def fetchRiotRotation_def)
  have nul: "snd (fetchRiotRotation sample_runtime (lit ''RGAPI-key'') (fetched ?n))
               = Inr (JNull, no_rate_info) \<and> rotation_ids sample_runtime JNull = Inl TypeError"
    by (simp add: healthy_def null_payload_response_def fetch_sample_200 rotation_ids_def)
  have got: "snd (fetchRiotRotation sample_runtime (lit ''RGAPI-key'')
                    (fetched (healthy (Responded payload_54))))
               = Inr (ids_payload [5, 4], no_rate_info)
             \<and> rotation_ids sample_runtime (ids_payload [5, 4]) = Inr [JNum 4, JNum 5]"
    by (simp add: healthy_def healthy_fetch_54 ids_54)
  have absent: "prevSignature None \<noteq> Plain (JStr (array_join sample_runtime [JNum 4, JNum 5]))"
    by (rule prevSignature_absent)
  have a: "snd (checkChampionRotation sample_runtime (healthy Rejected) None) = None
         \<and> Log Error (lit ''Error in scheduled rotation check'') (Some FetchRejected)
             \<in> set (logs (fst (checkChampionRotation sample_runtime (healthy Rejected) None)))"
    using handler_never_throws [of sample_runtime "healthy Rejected" None] key rej by blast
  have b: "Log Error (lit ''Error in scheduled rotation check'') (Some TypeError)
             \<in> set (logs (fst (checkChampionRotation sample_runtime ?n None)))"
    using handler_never_throws [of sample_runtime ?n None] key nul by blast
  have c: "Log Error (lit ''Error in scheduled rotation check'') (Some StoreReadFailed)
             \<in> set (logs (fst (checkChampionRotation sample_runtime ?r None)))"
    using handler_never_throws [of sample_runtime ?r None]
      key [of "Responded payload_54"] got absent
    by simp
  have d: "Log Error (lit ''Error in scheduled rotation check'') (Some StoreWriteFailed)
             \<in> set (logs (fst (checkChampionRotation sample_runtime ?w None)))"
    using handler_never_throws [of sample_runtime ?w None]
      key [of "Responded payload_54"] got absent
    by (simp add: healthy_def)
  have e: "Log Error (lit ''Error in scheduled rotation check'') (Some SendFailed)
             \<in> set (logs (fst (checkChampionRotation sample_runtime ?s None)))"
    using handler_never_throws [of sample_runtime ?s None]
      key [of "Responded payload_54"] got absent
    by (simp add: healthy_def)
  from a b c d e show ?thesis by blast
qed

end
